theory Spec2Isabelle
  imports Main
begin

section \<open>Forum Fusion: identities, responses and the authorization gate\<close>

text \<open>
  Object ids are the hexadecimal strings that the handlers compare with \<open>toString()\<close>.
\<close>

type_synonym oid = string

text \<open>
  Every early \<open>return res.status(...)\<close> and every \<open>catch\<close> branch of the handlers is one
  constructor; \<open>status_code\<close> is the HTTP status that the branch sends.
\<close>

datatype error =
    Unauthenticated
  | InsufficientRole
  | InsufficientPermission
  | NotAuthorized
  | ThreadNotFound
  | ParentCommentNotFound
  | CommentNotFound
  | UserNotFound
  | InvalidResetToken
  | InvalidCredentials
  | ServerError

fun status_code :: "error \<Rightarrow> nat" where
  "status_code Unauthenticated = 401"
| "status_code InsufficientRole = 403"
| "status_code InsufficientPermission = 403"
| "status_code NotAuthorized = 403"
| "status_code ThreadNotFound = 404"
| "status_code ParentCommentNotFound = 404"
| "status_code CommentNotFound = 404"
| "status_code UserNotFound = 404"
| "status_code InvalidResetToken = 400"
| "status_code InvalidCredentials = 400"
| "status_code ServerError = 500"

text \<open>
  \<open>req.user\<close> is the decoded token payload that \<open>auth\<close> attaches (middleware/auth.js).
  The handlers read four of its properties: \<open>_id\<close>, \<open>userId\<close>, \<open>role\<close> and
  \<open>permissions\<close>; a property that the payload does not carry is \<open>undefined\<close> (\<open>None\<close>).
\<close>

record payload =
  tok_id :: "oid option"
  tok_userId :: "oid option"
  tok_role :: string
  tok_permissions :: "(string \<times> bool) list option"

text \<open>
  \<open>/login\<close> signs \<open>{ userId: user._id, role: user.role }\<close>: the payload that \<open>auth\<close>
  decodes from a token of this server has neither \<open>_id\<close> nor \<open>permissions\<close>.
\<close>

definition login_payload :: "oid \<Rightarrow> string \<Rightarrow> payload" where
  "login_payload uid r =
     \<lparr>tok_id = None, tok_userId = Some uid, tok_role = r, tok_permissions = None\<rparr>"

text \<open>
  \<open>auth\<close>: \<open>jwt.verify\<close> either yields the payload or throws, and the \<open>catch\<close> answers 401.
  The argument is the outcome of the verification (\<open>None\<close> when the header is missing, the
  signature is wrong or the token has expired).
\<close>

definition auth :: "payload option \<Rightarrow> error + payload" where
  "auth verified = (case verified of None \<Rightarrow> Inl Unauthenticated | Some u \<Rightarrow> Inr u)"

text \<open>
  \<open>authorize(options = {})\<close> with \<open>const { roles = [], permissions = [] } = options\<close>:
  a property that is absent takes the default \<open>[]\<close>.
\<close>

record options =
  opt_roles :: "string list option"
  opt_permissions :: "string list option"

datatype decision = Allow | Deny error

text \<open>
  \<open>req.user.permissions && req.user.permissions[permission]\<close>, read for its truth value.
\<close>

definition holds :: "payload \<Rightarrow> string \<Rightarrow> bool" where
  "holds u permission =
     (case tok_permissions u of
        None \<Rightarrow> False
      | Some flags \<Rightarrow> (case map_of flags permission of None \<Rightarrow> False | Some b \<Rightarrow> b))"

definition authorize :: "options \<Rightarrow> payload option \<Rightarrow> decision" where
  "authorize opts req_user =
     (let roles = (case opt_roles opts of None \<Rightarrow> [] | Some rs \<Rightarrow> rs);
          permissions = (case opt_permissions opts of None \<Rightarrow> [] | Some ps \<Rightarrow> ps)
      in case req_user of
           None \<Rightarrow> Deny Unauthenticated
         | Some u \<Rightarrow>
             if length roles > 0 \<and> tok_role u \<notin> set roles
             then Deny InsufficientRole
             else if length permissions > 0
             then (if list_all (holds u) permissions then Allow
                   else Deny InsufficientPermission)
             else Allow)"

section \<open>The stored documents\<close>

text \<open>
  The three mongoose schemas (models/user.model.js, models/thread.model.js,
  models/comment.model.js), one record per schema with the declared paths (of the two
  timestamps, \<open>createdAt\<close> is kept, since the listing sorts on it). Dates are
  milliseconds (\<open>Date.now()\<close>). The collections are lists in insertion order.
  Every stored document has been written through its model, so it has the declared paths
  and no other field. In the moderator's delete the cast of the route parameter to an
  object id is part of the handler; in the other handlers the route parameters and the
  ids in request bodies are taken to be well-formed object ids, written symbolically in
  the sample data.
\<close>

record permission_flags =
  canPost :: bool
  canComment :: bool
  canModerate :: bool
  canManageUsers :: bool

record user_doc =
  user_id :: oid
  username :: string
  email :: string
  password :: "string option"
  passwordResetToken :: "string option"
  passwordResetExpires :: "nat option"
  role :: string
  permissions :: permission_flags
  u_createdAt :: nat
  lastActive :: nat

record thread_doc =
  thread_id :: oid
  title :: string
  t_content :: string
  t_author :: oid
  isPublic :: bool
  isLocked :: bool
  tags :: "string list"
  views :: int
  t_likes :: "oid list"
  t_createdAt :: nat

record comment_doc =
  comment_id :: oid
  c_content :: string
  c_author :: oid
  c_thread :: oid
  parentComment :: "oid option"
  isEdited :: bool
  isHidden :: bool
  c_likes :: "oid list"
  c_createdAt :: nat

record store =
  users :: "user_doc list"
  threads :: "thread_doc list"
  comments :: "comment_doc list"

subsection \<open>Collection operations\<close>

text \<open>
  \<open>findById\<close> and \<open>findOne\<close> return the first matching document or \<open>null\<close>;
  \<open>deleteOne\<close>, \<open>findByIdAndDelete\<close> and \<open>doc.remove()\<close> delete the first match;
  \<open>doc.save()\<close> of a stored document and \<open>findByIdAndUpdate\<close> rewrite the first
  document with that \<open>_id\<close>.
\<close>

fun remove_first :: "('a \<Rightarrow> bool) \<Rightarrow> 'a list \<Rightarrow> 'a list" where
  "remove_first P [] = []"
| "remove_first P (x # xs) = (if P x then xs else x # remove_first P xs)"

fun update_first :: "('a \<Rightarrow> bool) \<Rightarrow> ('a \<Rightarrow> 'a) \<Rightarrow> 'a list \<Rightarrow> 'a list" where
  "update_first P f [] = []"
| "update_first P f (x # xs) = (if P x then f x # xs else x # update_first P f xs)"

definition Thread_findById :: "oid \<Rightarrow> store \<Rightarrow> thread_doc option" where
  "Thread_findById i st = find (\<lambda>t. thread_id t = i) (threads st)"

definition Comment_findById :: "oid \<Rightarrow> store \<Rightarrow> comment_doc option" where
  "Comment_findById i st = find (\<lambda>c. comment_id c = i) (comments st)"

definition User_findById :: "oid \<Rightarrow> store \<Rightarrow> user_doc option" where
  "User_findById i st = find (\<lambda>u. user_id u = i) (users st)"

text \<open>JavaScript truthiness of a string that may be \<open>undefined\<close>: \<open>""\<close> is falsy.\<close>

definition truthy :: "string option \<Rightarrow> bool" where
  "truthy v = (case v of None \<Rightarrow> False | Some s \<Rightarrow> s \<noteq> [])"

subsection \<open>Casting a string to an object id\<close>

text \<open>
  The cast accepts 24 hexadecimal digits, in either case, and the id prints in lower
  case. It also accepts 12 bytes, which it reads as the id with those bytes (the newest
  releases of the driver have dropped this form). Anything else is a cast error.
\<close>

definition isHex :: "char \<Rightarrow> bool" where
  "isHex c = (c \<in> set ''0123456789abcdefABCDEF'')"

definition lowerHex :: "char \<Rightarrow> char" where
  "lowerHex c = (case map_of (zip ''ABCDEF'' ''abcdef'') c of None \<Rightarrow> c | Some l \<Rightarrow> l)"

definition hexByte :: "char \<Rightarrow> string" where
  "hexByte c = [''0123456789abcdef'' ! (of_char c div 16), ''0123456789abcdef'' ! (of_char c mod 16)]"

definition castObjectId :: "string \<Rightarrow> oid option" where
  "castObjectId s =
     (if length s = 24 \<and> list_all isHex s then Some (map lowerHex s)
      else if length s = 12 then Some (concat (map hexByte s))
      else None)"

subsection \<open>Filters and strict schemas\<close>

text \<open>
  A stored comment as the store sees it: the declared paths that have a value, by name.
  \<open>parentComment\<close> has no default, so a top-level comment has no such field.
\<close>

datatype jsval = Null | Str string | Bool bool | Num nat | Ids "oid list"

definition Comment_toObject :: "comment_doc \<Rightarrow> (string \<rightharpoonup> jsval)" where
  "Comment_toObject c =
     ([''_id'' \<mapsto> Str (comment_id c), ''content'' \<mapsto> Str (c_content c),
       ''author'' \<mapsto> Str (c_author c), ''thread'' \<mapsto> Str (c_thread c),
       ''isEdited'' \<mapsto> Bool (isEdited c), ''isHidden'' \<mapsto> Bool (isHidden c),
       ''likes'' \<mapsto> Ids (c_likes c), ''createdAt'' \<mapsto> Num (c_createdAt c)])
       (''parentComment'' := map_option Str (parentComment c))"

definition comment_paths :: "string list" where
  "comment_paths = [''_id'', ''content'', ''author'', ''thread'', ''parentComment'',
                    ''isEdited'', ''isHidden'', ''likes'', ''createdAt'', ''updatedAt'']"

text \<open>
  A filter is a list of equality conditions \<open>path: value\<close>. The store's rule for one
  condition: \<open>null\<close> matches a field that is \<open>null\<close> or missing, any other value
  matches a field that holds it.
\<close>

definition field_matches :: "jsval \<Rightarrow> jsval option \<Rightarrow> bool" where
  "field_matches v stored =
     (if v = Null then stored = None \<or> stored = Some Null else stored = Some v)"

text \<open>
  Before a filter is sent, mongoose casts it against the schema. What it does with a
  condition on a path that the schema does not declare is its \<open>strictQuery\<close> setting,
  whose default differs between releases, so it is an argument here: with \<open>strictQuery\<close>
  the condition is removed, without it the condition is sent as it is.
\<close>

definition cast_filter :: "bool \<Rightarrow> string list \<Rightarrow> (string \<times> jsval) list \<Rightarrow> (string \<times> jsval) list" where
  "cast_filter strictQuery paths q =
     (if strictQuery then filter (\<lambda>cond. fst cond \<in> set paths) q else q)"

definition Comment_matches :: "bool \<Rightarrow> (string \<times> jsval) list \<Rightarrow> comment_doc \<Rightarrow> bool" where
  "Comment_matches strictQuery q c =
     list_all (\<lambda>cond. field_matches (snd cond) (Comment_toObject c (fst cond)))
       (cast_filter strictQuery comment_paths q)"

definition Comment_find :: "bool \<Rightarrow> (string \<times> jsval) list \<Rightarrow> store \<Rightarrow> comment_doc list" where
  "Comment_find strictQuery q st = filter (Comment_matches strictQuery q) (comments st)"

definition Comment_countDocuments :: "bool \<Rightarrow> (string \<times> jsval) list \<Rightarrow> store \<Rightarrow> nat" where
  "Comment_countDocuments strictQuery q st = length (Comment_find strictQuery q st)"

definition Comment_deleteMany :: "bool \<Rightarrow> (string \<times> jsval) list \<Rightarrow> store \<Rightarrow> store" where
  "Comment_deleteMany strictQuery q st =
     st\<lparr>comments := filter (\<lambda>c. \<not> Comment_matches strictQuery q c) (comments st)\<rparr>"

text \<open>
  \<open>Thread.findByIdAndUpdate(id, { $inc: { path: n } })\<close>. The schema is strict for
  updates as well: an operator on a path that the schema does not declare is removed from
  the update. \<open>views\<close> is the only numeric path that the Thread schema declares, and
  \<open>commentCount\<close>, the path that the comment handlers name, is not declared.
\<close>

definition Thread_inc :: "oid \<Rightarrow> string \<Rightarrow> int \<Rightarrow> store \<Rightarrow> store" where
  "Thread_inc i path n st =
     (if path = ''views''
      then st\<lparr>threads := update_first (\<lambda>t. thread_id t = i)
                             (\<lambda>t. t\<lparr>views := views t + n\<rparr>) (threads st)\<rparr>
      else st)"

section \<open>Users: creation, role update, password reset\<close>

text \<open>
  The \<open>default\<close> functions of the four permission paths of the User schema. They read
  \<open>this.role\<close> when the document is built, after the given fields have been set.
\<close>

definition default_permissions :: "string \<Rightarrow> permission_flags" where
  "default_permissions r =
     \<lparr>canPost = r \<in> set [''community_member'', ''moderator'', ''admin''],
      canComment = r \<in> set [''community_member'', ''moderator'', ''admin''],
      canModerate = r \<in> set [''moderator'', ''admin''],
      canManageUsers = (r = ''admin'')\<rparr>"

definition role_enum :: "string list" where
  "role_enum = [''community_member'', ''moderator'', ''admin'', ''guest'']"

record user_input =
  in_username :: "string option"
  in_email :: "string option"
  in_password :: "string option"
  in_role :: "string option"

text \<open>
  \<open>User.create\<close>: defaults (\<open>role\<close> is \<open>"guest"\<close>, the permission flags come from the role,
  both dates are now), then validation (\<open>required\<close>, \<open>enum\<close>, the \<open>unique\<close> indexes);
  a failed validation rejects, and the caller's \<open>catch\<close> answers 500.
\<close>

definition User_create :: "oid \<Rightarrow> nat \<Rightarrow> user_input \<Rightarrow> store \<Rightarrow> (error + user_doc) \<times> store" where
  "User_create fresh now inp st =
     (let r = (case in_role inp of None \<Rightarrow> ''guest'' | Some r \<Rightarrow> r)
      in case (in_username inp, in_email inp) of
           (Some n, Some e) \<Rightarrow>
             if n \<noteq> [] \<and> e \<noteq> [] \<and> r \<in> set role_enum
                \<and> (r \<noteq> ''guest'' \<longrightarrow> truthy (in_password inp))
                \<and> n \<notin> set (map username (users st)) \<and> e \<notin> set (map email (users st))
             then (let u = \<lparr>user_id = fresh, username = n, email = e,
                             password = in_password inp, passwordResetToken = None,
                             passwordResetExpires = None, role = r,
                             permissions = default_permissions r,
                             u_createdAt = now, lastActive = now\<rparr>
                   in (Inr u, st\<lparr>users := users st @ [u]\<rparr>))
             else (Inl ServerError, st)
         | _ \<Rightarrow> (Inl ServerError, st))"

text \<open>
  \<open>POST /signup\<close>. \<open>bcrypt_hash\<close> stands for \<open>bcrypt.hash(_, 10)\<close>, which throws on
  a missing password.
\<close>

definition signup ::
  "(string \<Rightarrow> string) \<Rightarrow> oid \<Rightarrow> nat \<Rightarrow> string option \<Rightarrow> string option \<Rightarrow> string option
     \<Rightarrow> store \<Rightarrow> (error + user_doc) \<times> store" where
  "signup bcrypt_hash fresh now body_username body_email body_password st =
     (case body_password of
        None \<Rightarrow> (Inl ServerError, st)
      | Some pw \<Rightarrow>
          User_create fresh now
            \<lparr>in_username = body_username, in_email = body_email,
             in_password = Some (bcrypt_hash pw), in_role = Some ''community_member''\<rparr> st)"

text \<open>
  \<open>POST /login\<close>: the value is the payload of the token that is signed,
  \<open>{ userId: user._id, role: user.role }\<close>, which is what \<open>auth\<close> decodes from that token
  later. \<open>bcrypt_compare\<close> stands for \<open>bcrypt.compare\<close>, which throws on a missing argument.
\<close>

definition login ::
  "(string \<Rightarrow> string \<Rightarrow> bool) \<Rightarrow> string \<Rightarrow> string option \<Rightarrow> store \<Rightarrow> error + payload" where
  "login bcrypt_compare body_email body_password st =
     (case find (\<lambda>u. email u = body_email) (users st) of
        None \<Rightarrow> Inl InvalidCredentials
      | Some user \<Rightarrow>
          (case (body_password, password user) of
             (Some pw, Some h) \<Rightarrow>
               if bcrypt_compare pw h then Inr (login_payload (user_id user) (role user))
               else Inl InvalidCredentials
           | _ \<Rightarrow> Inl ServerError))"

text \<open>The chain \<open>auth, authorize(options)\<close> in front of a handler.\<close>

definition guarded :: "options \<Rightarrow> payload option \<Rightarrow> error + payload" where
  "guarded opts verified =
     (case auth verified of
        Inl e \<Rightarrow> Inl e
      | Inr u \<Rightarrow> (case authorize opts (Some u) of Deny e \<Rightarrow> Inl e | Allow \<Rightarrow> Inr u))"

text \<open>
  \<open>PUT /admin/users/:userId/role\<close>:
  \<open>User.findByIdAndUpdate(userId, { $set: { role: req.body.role } }, { new: true }).select("-password")\<close>.
  An \<open>undefined\<close> role sets nothing. The answer carries the updated document, or \<open>null\<close>.
\<close>

definition updateUserRole ::
  "payload option \<Rightarrow> oid \<Rightarrow> string option \<Rightarrow> store \<Rightarrow> (error + user_doc option) \<times> store" where
  "updateUserRole verified userId body_role st =
     (case guarded \<lparr>opt_roles = None, opt_permissions = Some [''canManageUsers'']\<rparr> verified of
        Inl e \<Rightarrow> (Inl e, st)
      | Inr u \<Rightarrow>
          (let st' = (case body_role of
                        None \<Rightarrow> st
                      | Some r \<Rightarrow>
                          st\<lparr>users := update_first (\<lambda>x. user_id x = userId)
                                         (\<lambda>x. x\<lparr>role := r\<rparr>) (users st)\<rparr>)
           in (Inr (map_option (\<lambda>x. x\<lparr>password := None\<rparr>) (User_findById userId st')), st')))"

text \<open>
  \<open>POST /forgot-password\<close>. \<open>resetToken\<close> is the value of
  \<open>crypto.randomBytes(32).toString("hex")\<close>, \<open>digest\<close> the SHA-256 hex digest, \<open>mail_sent\<close> whether
  \<open>transporter.sendMail\<close> resolved. The token fields are saved before the mail is sent.
\<close>

definition forgotPassword ::
  "(string \<Rightarrow> string) \<Rightarrow> string \<Rightarrow> bool \<Rightarrow> nat \<Rightarrow> string \<Rightarrow> store \<Rightarrow> (error + unit) \<times> store" where
  "forgotPassword digest resetToken mail_sent now body_email st =
     (case find (\<lambda>u. email u = body_email) (users st) of
        None \<Rightarrow> (Inl UserNotFound, st)
      | Some user \<Rightarrow>
          (let st' = st\<lparr>users := update_first (\<lambda>x. user_id x = user_id user)
                         (\<lambda>x. user\<lparr>passwordResetToken := Some (digest resetToken),
                                   passwordResetExpires := Some (now + 3600000),
                                   lastActive := now\<rparr>) (users st)\<rparr>
           in if mail_sent then (Inr (), st') else (Inl ServerError, st')))"

text \<open>
  \<open>PUT /reset-password/:token\<close>:
  \<open>User.findOne({ passwordResetToken: hashedToken, passwordResetExpires: { $gt: Date.now() } })\<close>.
\<close>

definition reset_match :: "string \<Rightarrow> nat \<Rightarrow> user_doc \<Rightarrow> bool" where
  "reset_match hashedToken now u =
     (passwordResetToken u = Some hashedToken
      \<and> (case passwordResetExpires u of None \<Rightarrow> False | Some e \<Rightarrow> e > now))"

definition resetPassword ::
  "(string \<Rightarrow> string) \<Rightarrow> (string \<Rightarrow> string) \<Rightarrow> nat \<Rightarrow> string \<Rightarrow> string option \<Rightarrow> store
     \<Rightarrow> (error + unit) \<times> store" where
  "resetPassword digest bcrypt_hash now token body_password st =
     (case find (reset_match (digest token) now) (users st) of
        None \<Rightarrow> (Inl InvalidResetToken, st)
      | Some user \<Rightarrow>
          (case body_password of
             None \<Rightarrow> (Inl ServerError, st)
           | Some pw \<Rightarrow>
               (Inr (),
                st\<lparr>users := update_first (\<lambda>x. user_id x = user_id user)
                     (\<lambda>x. user\<lparr>password := Some (bcrypt_hash pw),
                               passwordResetToken := None,
                               passwordResetExpires := None,
                               lastActive := now\<rparr>) (users st)\<rparr>)))"

section \<open>Comments\<close>

text \<open>
  The object handed to \<open>new Comment(...)\<close> or \<open>Comment.create(...)\<close>, with the keys
  that the handlers write. \<open>in_parent\<close> is the key \<open>parent\<close>, which is not a path of the
  schema: the strict schema drops it, and the document is built from the other keys.
  Absent paths take their defaults, and the \<open>required\<close> paths (\<open>content\<close>, \<open>author\<close>,
  \<open>thread\<close>) are validated on save; a string path that is required rejects \<open>""\<close> too.
  A rejected save reaches the handler's \<open>catch\<close>.
\<close>

record comment_input =
  in_content :: "string option"
  in_author :: "oid option"
  in_thread :: "oid option"
  in_parent :: "jsval option"
  in_parentComment :: "oid option"
  in_isEdited :: "bool option"
  in_isHidden :: "bool option"
  in_likes :: "oid list option"

definition Comment_create ::
  "oid \<Rightarrow> nat \<Rightarrow> comment_input \<Rightarrow> store \<Rightarrow> (error + comment_doc) \<times> store" where
  "Comment_create fresh now inp st =
     (case (in_content inp, in_author inp, in_thread inp) of
        (Some c, Some a, Some t) \<Rightarrow>
          if c \<noteq> []
          then (let d = \<lparr>comment_id = fresh, c_content = c, c_author = a, c_thread = t,
                          parentComment = in_parentComment inp,
                          isEdited = (case in_isEdited inp of None \<Rightarrow> False | Some b \<Rightarrow> b),
                          isHidden = (case in_isHidden inp of None \<Rightarrow> False | Some b \<Rightarrow> b),
                          c_likes = (case in_likes inp of None \<Rightarrow> [] | Some l \<Rightarrow> l),
                          c_createdAt = now\<rparr>
                in (Inr d, st\<lparr>comments := comments st @ [d]\<rparr>))
          else (Inl ServerError, st)
      | _ \<Rightarrow> (Inl ServerError, st))"

text \<open>
  The JSON body of the comment requests: the keys that the router's handler reads
  (\<open>content\<close>, \<open>threadId\<close>, \<open>parentId\<close>) and the keys that the application's handler
  passes on to the model with \<open>...req.body\<close>.
\<close>

record comment_body =
  b_content :: "string option"
  b_threadId :: "oid option"
  b_parentId :: "string option"
  b_parent :: "jsval option"
  b_parentComment :: "oid option"
  b_isEdited :: "bool option"
  b_isHidden :: "bool option"
  b_likes :: "oid list option"

text \<open>
  \<open>router.post("/", auth, ...)\<close>: the thread and the parent are looked up, the comment is
  built with \<open>author: req.user._id\<close> and \<open>parent: parentId || null\<close>, saved, and the
  thread is updated. There is no \<open>authorize\<close> in the chain.
\<close>

definition router_createComment ::
  "oid \<Rightarrow> nat \<Rightarrow> payload option \<Rightarrow> comment_body \<Rightarrow> store \<Rightarrow> (error + comment_doc) \<times> store" where
  "router_createComment fresh now verified body st =
     (case auth verified of
        Inl e \<Rightarrow> (Inl e, st)
      | Inr u \<Rightarrow>
          (case (case b_threadId body of None \<Rightarrow> None | Some t \<Rightarrow> Thread_findById t st) of
             None \<Rightarrow> (Inl ThreadNotFound, st)
           | Some thread \<Rightarrow>
               if truthy (b_parentId body)
                  \<and> (case b_parentId body of None \<Rightarrow> None | Some p \<Rightarrow> Comment_findById p st) = None
               then (Inl ParentCommentNotFound, st)
               else (case Comment_create fresh now
                            \<lparr>in_content = b_content body, in_author = tok_id u,
                             in_thread = b_threadId body,
                             in_parent = Some (if truthy (b_parentId body)
                                               then (case b_parentId body of
                                                       None \<Rightarrow> Null | Some p \<Rightarrow> Str p)
                                               else Null),
                             in_parentComment = None,
                             in_isEdited = None, in_isHidden = None, in_likes = None\<rparr> st of
                       (Inl e, st') \<Rightarrow> (Inl e, st')
                     | (Inr comment, st') \<Rightarrow>
                         (Inr comment, Thread_inc (thread_id thread) ''commentCount'' 1 st'))))"

text \<open>
  \<open>app.post("/threads/:threadId/comments", auth, authorize({ permissions: ["canComment"] }), ...)\<close>:
  \<open>Comment.create({ ...req.body, author: req.user.userId, thread: req.params.threadId })\<close>.
  Nothing is looked up and no thread is updated.
\<close>

definition app_createComment ::
  "oid \<Rightarrow> nat \<Rightarrow> payload option \<Rightarrow> oid \<Rightarrow> comment_body \<Rightarrow> store \<Rightarrow> (error + comment_doc) \<times> store" where
  "app_createComment fresh now verified threadId body st =
     (case guarded \<lparr>opt_roles = None, opt_permissions = Some [''canComment'']\<rparr> verified of
        Inl e \<Rightarrow> (Inl e, st)
      | Inr u \<Rightarrow>
          Comment_create fresh now
            \<lparr>in_content = b_content body, in_author = tok_userId u, in_thread = Some threadId,
             in_parent = b_parent body,
             in_parentComment = b_parentComment body, in_isEdited = b_isEdited body,
             in_isHidden = b_isHidden body, in_likes = b_likes body\<rparr> st)"

text \<open>
  The ownership test of \<open>router.put("/:id")\<close> and \<open>router.delete("/:id")\<close>:
  \<open>comment.author.toString() !== req.user._id.toString() && req.user.role !== "admin"\<close>.
  Both \<open>toString()\<close> calls of the left operand run first; on a payload without \<open>_id\<close> the
  second one throws a TypeError, which the handler's \<open>catch\<close> turns into 500.
\<close>

definition not_owner_nor_admin :: "comment_doc \<Rightarrow> payload \<Rightarrow> error + bool" where
  "not_owner_nor_admin comment u =
     (case tok_id u of
        None \<Rightarrow> Inl ServerError
      | Some requester \<Rightarrow> Inr (c_author comment \<noteq> requester \<and> tok_role u \<noteq> ''admin''))"

text \<open>
  \<open>router.put("/:id", auth, ...)\<close>. Saving validates the required \<open>content\<close>.
\<close>

definition updateComment ::
  "payload option \<Rightarrow> oid \<Rightarrow> string option \<Rightarrow> store \<Rightarrow> (error + comment_doc) \<times> store" where
  "updateComment verified cid body_content st =
     (case auth verified of
        Inl e \<Rightarrow> (Inl e, st)
      | Inr u \<Rightarrow>
          (case Comment_findById cid st of
             None \<Rightarrow> (Inl CommentNotFound, st)
           | Some comment \<Rightarrow>
               (case not_owner_nor_admin comment u of
                  Inl e \<Rightarrow> (Inl e, st)
                | Inr True \<Rightarrow> (Inl NotAuthorized, st)
                | Inr False \<Rightarrow>
                    (case body_content of
                       None \<Rightarrow> (Inl ServerError, st)
                     | Some c \<Rightarrow>
                         if c = [] then (Inl ServerError, st)
                         else (let comment' = comment\<lparr>c_content := c, isEdited := True\<rparr>
                               in (Inr comment',
                                   st\<lparr>comments := update_first (\<lambda>x. comment_id x = cid)
                                                      (\<lambda>x. comment') (comments st)\<rparr>))))))"

text \<open>
  \<open>router.delete("/:id", auth, ...)\<close>: \<open>Comment.deleteMany({ parent: comment._id })\<close>,
  \<open>comment.remove()\<close>, then \<open>$inc: { commentCount: -1 }\<close> on the comment's thread.
\<close>

definition deleteComment ::
  "bool \<Rightarrow> payload option \<Rightarrow> oid \<Rightarrow> store \<Rightarrow> (error + unit) \<times> store" where
  "deleteComment strictQuery verified cid st =
     (case auth verified of
        Inl e \<Rightarrow> (Inl e, st)
      | Inr u \<Rightarrow>
          (case Comment_findById cid st of
             None \<Rightarrow> (Inl CommentNotFound, st)
           | Some comment \<Rightarrow>
               (case not_owner_nor_admin comment u of
                  Inl e \<Rightarrow> (Inl e, st)
                | Inr True \<Rightarrow> (Inl NotAuthorized, st)
                | Inr False \<Rightarrow>
                    (let st1 = Comment_deleteMany strictQuery
                                 [(''parent'', Str (comment_id comment))] st;
                         st2 = st1\<lparr>comments :=
                                   remove_first (\<lambda>x. comment_id x = comment_id comment) (comments st1)\<rparr>
                     in (Inr (), Thread_inc (c_thread comment) ''commentCount'' (- 1) st2)))))"

text \<open>
  \<open>app.delete("/comments/:commentId", auth, authorize({ permissions: ["canModerate"] }), ...)\<close>:
  \<open>Comment.findByIdAndDelete(req.params.commentId)\<close> inside \<open>try\<close>. The route
  parameter is any string; the query casts it to an object id, and a cast error rejects,
  so that the \<open>catch\<close> answers 500. Otherwise the first comment with that id, if there is
  one, is deleted, and the answer is the success message whatever was found.
\<close>

definition deleteCommentAsModerator ::
  "payload option \<Rightarrow> string \<Rightarrow> store \<Rightarrow> (error + unit) \<times> store" where
  "deleteCommentAsModerator verified commentId st =
     (case guarded \<lparr>opt_roles = None, opt_permissions = Some [''canModerate'']\<rparr> verified of
        Inl e \<Rightarrow> (Inl e, st)
      | Inr u \<Rightarrow>
          (case castObjectId commentId of
             None \<Rightarrow> (Inl ServerError, st)
           | Some i \<Rightarrow>
               (Inr (), st\<lparr>comments := remove_first (\<lambda>x. comment_id x = i) (comments st)\<rparr>)))"

text \<open>
  \<open>router.get("/thread/:threadId")\<close>: the filter is \<open>{ thread, parent: parentId }\<close> or
  \<open>{ thread, parent: null }\<close>, the result is sorted on \<open>createdAt\<close> ascending, and each
  comment gets \<open>replyCount = Comment.countDocuments({ parent: comment._id })\<close>.
  (\<open>populate\<close>, which replaces the author id by the author's name, is left out.)
\<close>

definition listComments ::
  "bool \<Rightarrow> oid \<Rightarrow> string option \<Rightarrow> store \<Rightarrow> (comment_doc \<times> nat) list" where
  "listComments strictQuery threadId parentId st =
     (let query = [(''thread'', Str threadId),
                   (''parent'', if truthy parentId
                                then (case parentId of None \<Rightarrow> Null | Some p \<Rightarrow> Str p)
                                else Null)];
          found = sort_key c_createdAt (Comment_find strictQuery query st)
      in map (\<lambda>comment.
                (comment,
                 Comment_countDocuments strictQuery [(''parent'', Str (comment_id comment))] st))
           found)"

subsection \<open>Liking a comment\<close>

text \<open>
  \<open>comment.likes += 1\<close> on the \<open>likes\<close> path, which the schema declares as an array of
  user ids. \<open>+\<close> on an array and a number concatenates strings: the array becomes
  \<open>likes.join(",")\<close> and the number \<open>"1"\<close>.
\<close>

fun join_comma :: "string list \<Rightarrow> string" where
  "join_comma [] = []"
| "join_comma [x] = x"
| "join_comma (x # y # ys) = x @ '','' @ join_comma (y # ys)"

definition likes_plus_one :: "oid list \<Rightarrow> string" where
  "likes_plus_one likes = join_comma likes @ ''1''"

text \<open>
  Assigning that string to the array path wraps it in a one-element array and casts the
  element to an object id (\<open>castObjectId\<close>); a cast error is recorded on the document,
  and \<open>save()\<close> rejects.
\<close>

text \<open>\<open>router.post("/:id/like", auth, ...)\<close>; the answer is \<open>{ likes: comment.likes }\<close>.\<close>

definition likeComment ::
  "payload option \<Rightarrow> oid \<Rightarrow> store \<Rightarrow> (error + oid list) \<times> store" where
  "likeComment verified cid st =
     (case auth verified of
        Inl e \<Rightarrow> (Inl e, st)
      | Inr u \<Rightarrow>
          (case Comment_findById cid st of
             None \<Rightarrow> (Inl CommentNotFound, st)
           | Some comment \<Rightarrow>
               (case castObjectId (likes_plus_one (c_likes comment)) of
                  None \<Rightarrow> (Inl ServerError, st)
                | Some liker \<Rightarrow>
                    (let comment' = comment\<lparr>c_likes := [liker]\<rparr>
                     in (Inr (c_likes comment'),
                         st\<lparr>comments := update_first (\<lambda>x. comment_id x = cid)
                                            (\<lambda>x. comment') (comments st)\<rparr>)))))"

section \<open>Sample data\<close>

text \<open>
  A small forum used to evaluate the handlers: three users, one thread, and a chain of three
  comments (\<open>c1\<close>, its reply \<open>c2\<close>, and \<open>c3\<close>, a reply to \<open>c2\<close>).
\<close>

definition alice :: user_doc where
  "alice = \<lparr>user_id = ''u1'', username = ''alice'', email = ''alice@forum.test'',
            password = Some ''hash-a'', passwordResetToken = None,
            passwordResetExpires = None, role = ''community_member'',
            permissions = default_permissions ''community_member'',
            u_createdAt = 1, lastActive = 1\<rparr>"

definition bob :: user_doc where
  "bob = \<lparr>user_id = ''u2'', username = ''bob'', email = ''bob@forum.test'',
          password = Some ''hash-b'', passwordResetToken = Some ''nekot'',
          passwordResetExpires = Some 5000, role = ''moderator'',
          permissions = default_permissions ''moderator'',
          u_createdAt = 2, lastActive = 2\<rparr>"

definition carol :: user_doc where
  "carol = \<lparr>user_id = ''u9'', username = ''carol'', email = ''carol@forum.test'',
            password = Some ''$2a$secret'', passwordResetToken = None,
            passwordResetExpires = None, role = ''community_member'',
            permissions = \<lparr>canPost = True, canComment = True, canModerate = False,
                           canManageUsers = False\<rparr>,
            u_createdAt = 7, lastActive = 7\<rparr>"

definition dana :: user_doc where
  "dana = \<lparr>user_id = ''u3'', username = ''dana'', email = ''dana@forum.test'',
           password = Some ''hash-d'', passwordResetToken = None,
           passwordResetExpires = None, role = ''admin'',
           permissions = default_permissions ''admin'',
           u_createdAt = 3, lastActive = 3\<rparr>"

definition topic :: thread_doc where
  "topic = \<lparr>thread_id = ''t1'', title = ''Welcome'', t_content = ''Say hello'',
            t_author = ''u1'', isPublic = True, isLocked = False, tags = [], views = 0,
            t_likes = [], t_createdAt = 5\<rparr>"

definition c_root :: comment_doc where
  "c_root = \<lparr>comment_id = ''c1'', c_content = ''hello'', c_author = ''u1'', c_thread = ''t1'',
             parentComment = None, isEdited = False, isHidden = False, c_likes = [],
             c_createdAt = 10\<rparr>"

definition c_child :: comment_doc where
  "c_child = \<lparr>comment_id = ''c2'', c_content = ''hi alice'', c_author = ''u2'', c_thread = ''t1'',
              parentComment = Some ''c1'', isEdited = False, isHidden = False, c_likes = [],
              c_createdAt = 20\<rparr>"

definition c_grandchild :: comment_doc where
  "c_grandchild = \<lparr>comment_id = ''c3'', c_content = ''hi bob'', c_author = ''u1'', c_thread = ''t1'',
              parentComment = Some ''c2'', isEdited = False, isHidden = False, c_likes = [],
              c_createdAt = 30\<rparr>"

definition people :: store where
  "people = \<lparr>users = [alice, bob], threads = [], comments = []\<rparr>"

definition forum :: store where
  "forum = \<lparr>users = [alice, bob, dana], threads = [topic],
            comments = [c_root, c_child, c_grandchild]\<rparr>"

text \<open>A second store, whose comment ids are written out as object ids.\<close>

definition archived_root :: comment_doc where
  "archived_root = \<lparr>comment_id = ''65a1b2c3d4e5f60718293a01'', c_content = ''first'',
                    c_author = ''u1'', c_thread = ''t1'', parentComment = None,
                    isEdited = False, isHidden = False, c_likes = [], c_createdAt = 10\<rparr>"

definition archived_reply :: comment_doc where
  "archived_reply = \<lparr>comment_id = ''65a1b2c3d4e5f60718293a02'', c_content = ''second'',
                     c_author = ''u2'', c_thread = ''t1'',
                     parentComment = Some ''65a1b2c3d4e5f60718293a01'',
                     isEdited = False, isHidden = False, c_likes = [], c_createdAt = 20\<rparr>"

definition archive :: store where
  "archive = \<lparr>users = [alice, bob, dana], threads = [topic],
              comments = [archived_root, archived_reply]\<rparr>"

text \<open>
  Payloads. \<open>login_payload\<close> is what this server signs; the others carry properties that
  the handlers read but \<open>/login\<close> does not sign.
\<close>

definition commenter :: payload where
  "commenter = \<lparr>tok_id = None, tok_userId = Some ''u1'', tok_role = ''community_member'',
                 tok_permissions = Some [(''canPost'', True), (''canComment'', True)]\<rparr>"

definition visitor :: payload where
  "visitor = \<lparr>tok_id = Some ''u7'', tok_userId = None, tok_role = ''guest'',
               tok_permissions = Some [(''canPost'', False), (''canComment'', False)]\<rparr>"

definition owner :: payload where
  "owner = \<lparr>tok_id = Some ''u1'', tok_userId = None, tok_role = ''community_member'',
             tok_permissions = None\<rparr>"

definition janitor :: payload where
  "janitor = \<lparr>tok_id = None, tok_userId = Some ''u2'', tok_role = ''moderator'',
               tok_permissions = Some [(''canModerate'', True)]\<rparr>"

definition manager :: payload where
  "manager = \<lparr>tok_id = None, tok_userId = Some ''u3'', tok_role = ''admin'',
               tok_permissions = Some [(''canManageUsers'', True)]\<rparr>"

definition say :: "string \<Rightarrow> oid option \<Rightarrow> comment_body" where
  "say words tid = \<lparr>b_content = Some words, b_threadId = tid, b_parentId = None,
                    b_parent = None, b_parentComment = None, b_isEdited = None,
                    b_isHidden = None, b_likes = None\<rparr>"

section \<open>Properties\<close>

lemmas sample_defs = alice_def bob_def carol_def dana_def topic_def c_root_def c_child_def
  c_grandchild_def people_def forum_def archived_root_def archived_reply_def archive_def commenter_def visitor_def owner_def janitor_def
  manager_def say_def login_payload_def

subsection \<open>Lists and collections\<close>

lemma find_in_set: "find P xs = Some x \<Longrightarrow> x \<in> set xs \<and> P x"
  by (induction xs) (auto split: if_splits)

lemma find_none_set: "(find P xs = None) = (\<forall>x \<in> set xs. \<not> P x)"
  by (induction xs) auto

lemma find_update_first:
  "(\<And>x. P x \<Longrightarrow> P (f x)) \<Longrightarrow> find P (update_first P f xs) = map_option f (find P xs)"
  by (induction xs) auto

lemma map_update_first:
  "(\<And>x. g (f x) = g x) \<Longrightarrow> map g (update_first P f xs) = map g xs"
  by (induction xs) auto

lemma remove_first_keeps: "x \<in> set xs \<Longrightarrow> \<not> P x \<Longrightarrow> x \<in> set (remove_first P xs)"
  by (induction xs) auto

lemma remove_first_subset: "set (remove_first P xs) \<subseteq> set xs"
  by (induction xs) auto

lemma remove_first_length: "length xs \<le> Suc (length (remove_first P xs))"
  by (induction xs) auto

lemma remove_first_absent: "(\<forall>x \<in> set xs. \<not> P x) \<Longrightarrow> remove_first P xs = xs"
  by (induction xs) auto

subsection \<open>The undeclared paths \<open>parent\<close> and \<open>commentCount\<close>\<close>

lemma parent_condition:
  "Comment_matches False [(''parent'', Str i)] c = False"
  "Comment_matches True [(''parent'', Str i)] c = True"
  "Comment_matches sq [(''thread'', Str t), (''parent'', Null)] c = (c_thread c = t)"
  "Comment_matches False [(''thread'', Str t), (''parent'', Str i)] c = False"
  "Comment_matches True [(''thread'', Str t), (''parent'', Str i)] c = (c_thread c = t)"
  by (auto simp: Comment_matches_def cast_filter_def comment_paths_def field_matches_def
      Comment_toObject_def)

lemma deleteMany_parent:
  "Comment_deleteMany False [(''parent'', Str i)] st = st"
  "Comment_deleteMany True [(''parent'', Str i)] st = st\<lparr>comments := []\<rparr>"
  by (simp_all add: Comment_deleteMany_def parent_condition)

lemma countDocuments_parent:
  "Comment_countDocuments False [(''parent'', Str i)] st = 0"
  "Comment_countDocuments True [(''parent'', Str i)] st = length (comments st)"
  by (simp_all add: Comment_countDocuments_def Comment_find_def parent_condition)

lemma inc_commentCount: "Thread_inc i ''commentCount'' n st = st"
  by (simp add: Thread_inc_def)

text \<open>
  So the owner/admin delete, when it passes the ownership test, removes the named comment
  and no reply (without \<open>strictQuery\<close>), or every comment of every thread (with it).
\<close>

lemma deleteComment_with_id:
  assumes "tok_id u = Some requester" and "Comment_findById cid st = Some c"
    and "c_author c = requester \<or> tok_role u = ''admin''"
  shows "deleteComment False (Some u) cid st
           = (Inr (), st\<lparr>comments := remove_first (\<lambda>x. comment_id x = cid) (comments st)\<rparr>)"
    and "deleteComment True (Some u) cid st = (Inr (), st\<lparr>comments := []\<rparr>)"
proof -
  from assms(2) have "comment_id c = cid"
    by (auto simp: Comment_findById_def dest: find_in_set)
  with assms show "deleteComment False (Some u) cid st
           = (Inr (), st\<lparr>comments := remove_first (\<lambda>x. comment_id x = cid) (comments st)\<rparr>)"
    and "deleteComment True (Some u) cid st = (Inr (), st\<lparr>comments := []\<rparr>)"
    by (auto simp: deleteComment_def auth_def not_owner_nor_admin_def deleteMany_parent
        inc_commentCount Let_def)
qed

lemma threads_never_change:
  "threads (snd (router_createComment fresh now verified body st)) = threads st"
  "threads (snd (app_createComment fresh now verified threadId body st)) = threads st"
  "threads (snd (deleteComment sq verified cid st)) = threads st"
  by (auto simp: router_createComment_def app_createComment_def deleteComment_def
      Comment_create_def inc_commentCount Comment_deleteMany_def Let_def
      split: sum.splits option.splits prod.splits bool.splits)

subsection \<open>What the tokens of this server can and cannot do\<close>

text \<open>
  A payload signed by \<open>/login\<close> carries no \<open>permissions\<close>, so it passes no gate that
  requires a permission, and no \<open>_id\<close>, so the router's ownership test throws on it.
\<close>

lemma login_signs_userId_and_role:
  "login bcrypt_compare body_email body_password st = Inr p \<Longrightarrow>
     tok_id p = None \<and> tok_permissions p = None
     \<and> (\<exists>u \<in> set (users st). tok_userId p = Some (user_id u) \<and> tok_role p = role u)"
  by (auto simp: login_def login_payload_def split: option.splits if_splits dest: find_in_set)

lemma login_payload_fails_permission_gate:
  "guarded \<lparr>opt_roles = rs, opt_permissions = Some (p # ps)\<rparr> (Some (login_payload uid r))
     \<in> {Inl InsufficientRole, Inl InsufficientPermission}"
  by (simp add: guarded_def auth_def authorize_def holds_def login_payload_def Let_def
      split: option.splits)

lemma deleteCommentAsModerator_login_token:
  "deleteCommentAsModerator (Some (login_payload uid r)) cid st = (Inl InsufficientPermission, st)"
  by (simp add: deleteCommentAsModerator_def guarded_def auth_def authorize_def holds_def
      login_payload_def)

lemma updateComment_without_id:
  "tok_id u = None \<Longrightarrow> Comment_findById cid st = Some c \<Longrightarrow>
     updateComment (Some u) cid body_content st = (Inl ServerError, st)"
  by (simp add: updateComment_def auth_def not_owner_nor_admin_def)

lemma deleteComment_without_id:
  "tok_id u = None \<Longrightarrow> Comment_findById cid st = Some c \<Longrightarrow>
     deleteComment sq (Some u) cid st = (Inl ServerError, st)"
  by (simp add: deleteComment_def auth_def not_owner_nor_admin_def)

lemma router_createComment_without_id:
  "tok_id u = None \<Longrightarrow>
     (\<exists>e. router_createComment fresh now (Some u) body st = (Inl e, st))"
  by (simp add: router_createComment_def auth_def Comment_create_def
      split: option.splits)

text \<open>On a payload that does carry \<open>_id\<close>, the update handler behaves as follows.\<close>

lemma updateComment_with_id:
  assumes "tok_id u = Some requester"
  shows "Comment_findById cid st = None \<Longrightarrow>
           updateComment (Some u) cid body_content st = (Inl CommentNotFound, st)"
    and "Comment_findById cid st = Some c \<Longrightarrow> c_author c \<noteq> requester
           \<Longrightarrow> tok_role u \<noteq> ''admin''
           \<Longrightarrow> updateComment (Some u) cid body_content st = (Inl NotAuthorized, st)"
    and "Comment_findById cid st = Some c \<Longrightarrow> c_author c = requester \<or> tok_role u = ''admin''
           \<Longrightarrow> new_content \<noteq> []
           \<Longrightarrow> updateComment (Some u) cid (Some new_content) st
                 = (Inr (c\<lparr>c_content := new_content, isEdited := True\<rparr>),
                    st\<lparr>comments := update_first (\<lambda>x. comment_id x = cid)
                          (\<lambda>x. c\<lparr>c_content := new_content, isEdited := True\<rparr>) (comments st)\<rparr>)"
  using assms by (auto simp: updateComment_def auth_def not_owner_nor_admin_def Let_def)

subsection \<open>The like handler never stores a like\<close>

lemma join_comma_length:
  "\<forall>x \<in> set xs. length x = 24 \<Longrightarrow> xs \<noteq> [] \<Longrightarrow> Suc (length (join_comma xs)) = 25 * length xs"
  by (induction xs rule: join_comma.induct) auto

lemma likes_plus_one_not_castable:
  assumes "\<forall>x \<in> set likes. length x = 24"
  shows "castObjectId (likes_plus_one likes) = None"
proof (cases likes)
  case Nil
  then show ?thesis by (simp add: likes_plus_one_def castObjectId_def)
next
  case (Cons x xs)
  with assms have "length (likes_plus_one likes) = 25 * length likes"
    using join_comma_length [of likes] by (simp add: likes_plus_one_def)
  moreover have "length likes \<ge> 1" using Cons by simp
  ultimately have "length (likes_plus_one likes) \<noteq> 24 \<and> length (likes_plus_one likes) \<noteq> 12"
    by presburger
  then show ?thesis by (simp add: castObjectId_def)
qed

lemma likeComment_never_counts:
  assumes "\<forall>c \<in> set (comments st). \<forall>x \<in> set (c_likes c). length x = 24"
  shows "\<exists>e. likeComment verified cid st = (Inl e, st)"
proof (cases "Comment_findById cid st")
  case None
  then show ?thesis by (simp add: likeComment_def auth_def split: option.splits)
next
  case (Some c)
  then have "c \<in> set (comments st)"
    by (auto simp: Comment_findById_def dest: find_in_set)
  with assms have "castObjectId (likes_plus_one (c_likes c)) = None"
    by (simp add: likes_plus_one_not_castable)
  with Some show ?thesis by (simp add: likeComment_def auth_def split: option.splits)
qed

subsection \<open>What the listing does guarantee\<close>

lemma listComments_sorted_in_thread:
  "sorted (map (c_createdAt \<circ> fst) (listComments sq threadId parentId st))
   \<and> (\<forall>c \<in> set (map fst (listComments sq threadId parentId st)).
         c \<in> set (comments st) \<and> c_thread c = threadId)"
  by (auto simp: listComments_def Let_def comp_def Comment_find_def Comment_matches_def
      cast_filter_def comment_paths_def field_matches_def Comment_toObject_def)

lemma listComments_with_parentId:
  "p \<noteq> [] \<Longrightarrow> listComments False threadId (Some p) st = []"
  "p \<noteq> [] \<Longrightarrow> listComments True threadId (Some p) st = listComments True threadId None st"
proof -
  have "Comment_matches True [(''thread'', Str threadId), (''parent'', Str p)]
          = Comment_matches True [(''thread'', Str threadId), (''parent'', Null)]"
    by (rule ext) (simp add: parent_condition)
  then show "p \<noteq> [] \<Longrightarrow> listComments True threadId (Some p) st = listComments True threadId None st"
    by (simp add: listComments_def Let_def truthy_def Comment_find_def)
  have "Comment_matches False [(''thread'', Str threadId), (''parent'', Str p)] = (\<lambda>c. False)"
    by (rule ext) (simp add: parent_condition)
  then show "p \<noteq> [] \<Longrightarrow> listComments False threadId (Some p) st = []"
    by (simp add: listComments_def Let_def truthy_def Comment_find_def)
qed

lemma listComments_ignores_parentComment:
  "truthy parentId = False \<Longrightarrow>
     set (map fst (listComments sq threadId parentId st))
       = {c \<in> set (comments st). c_thread c = threadId}"
  by (auto simp: listComments_def Let_def Comment_find_def Comment_matches_def
      cast_filter_def comment_paths_def field_matches_def Comment_toObject_def)

subsection \<open>The claims\<close>



text \<open>
  C2. createComment, evaluated on its two handlers. The application's handler, which is the
  one behind the \<open>canComment\<close> gate, looks nothing up: for a requester holding
  \<open>canComment\<close> and a thread id that resolves to no thread it persists the comment.
  The router's handler, which does look up the thread and the parent, has no permission
  gate: a requester without \<open>canComment\<close> creates a comment. On a payload signed by
  \<open>/login\<close> the router's handler fails with 500 on an existing thread, since the author it
  reads (\<open>req.user._id\<close>) is absent. In none of the three runs does a thread change.
\<close>

theorem createComment_paths_disagree:
  "Thread_findById ''t404'' forum = None
   \<and> holds commenter ''canComment''
   \<and> app_createComment ''c9'' 40 (Some commenter) ''t404'' (say ''lost'' None) forum
       = (Inr \<lparr>comment_id = ''c9'', c_content = ''lost'', c_author = ''u1'', c_thread = ''t404'',
               parentComment = None, isEdited = False, isHidden = False, c_likes = [],
               c_createdAt = 40\<rparr>,
          forum\<lparr>comments := [c_root, c_child, c_grandchild,
             \<lparr>comment_id = ''c9'', c_content = ''lost'', c_author = ''u1'', c_thread = ''t404'',
               parentComment = None, isEdited = False, isHidden = False, c_likes = [],
               c_createdAt = 40\<rparr>]\<rparr>)
   \<and> \<not> holds visitor ''canComment''
   \<and> router_createComment ''c9'' 40 (Some visitor) (say ''uninvited'' (Some ''t1'')) forum
       = (Inr \<lparr>comment_id = ''c9'', c_content = ''uninvited'', c_author = ''u7'', c_thread = ''t1'',
               parentComment = None, isEdited = False, isHidden = False, c_likes = [],
               c_createdAt = 40\<rparr>,
          forum\<lparr>comments := [c_root, c_child, c_grandchild,
             \<lparr>comment_id = ''c9'', c_content = ''uninvited'', c_author = ''u7'', c_thread = ''t1'',
               parentComment = None, isEdited = False, isHidden = False, c_likes = [],
               c_createdAt = 40\<rparr>]\<rparr>)
   \<and> router_createComment ''c9'' 40 (Some (login_payload ''u1'' ''community_member''))
         (say ''hello'' (Some ''t1'')) forum
       = (Inl ServerError, forum)"
  by (simp add: sample_defs Thread_findById_def Comment_findById_def app_createComment_def
      router_createComment_def guarded_def auth_def authorize_def holds_def Comment_create_def
      truthy_def Thread_inc_def Let_def)

text \<open>
  C3. The owner/admin delete handler, evaluated on comment \<open>c1\<close>, which has exactly one
  direct child (\<open>c2\<close>) and one grandchild (\<open>c3\<close>). For an admin with a payload signed by
  \<open>/login\<close> the ownership test throws and nothing is deleted. For a payload that carries
  the author's \<open>_id\<close>, the cascade filter names the undeclared path \<open>parent\<close>: without
  \<open>strictQuery\<close> it matches nothing and the child \<open>c2\<close> stays; with \<open>strictQuery\<close> the
  filter is empty and every comment goes, the grandchild too. No thread changes, and the
  handler asks for a decrement of one, once.
\<close>

theorem deleteComment_cascade_evaluated:
  "parentComment c_child = Some (comment_id c_root)
   \<and> parentComment c_grandchild = Some (comment_id c_child)
   \<and> deleteComment False (Some (login_payload ''u3'' ''admin'')) ''c1'' forum
       = (Inl ServerError, forum)
   \<and> deleteComment True (Some (login_payload ''u3'' ''admin'')) ''c1'' forum
       = (Inl ServerError, forum)
   \<and> deleteComment False (Some owner) ''c1'' forum
       = (Inr (), forum\<lparr>comments := [c_child, c_grandchild]\<rparr>)
   \<and> deleteComment True (Some owner) ''c1'' forum = (Inr (), forum\<lparr>comments := []\<rparr>)"
  by (simp add: sample_defs deleteComment_def Comment_findById_def auth_def
      not_owner_nor_admin_def Comment_deleteMany_def Comment_matches_def cast_filter_def
      comment_paths_def field_matches_def Comment_toObject_def Thread_inc_def Let_def)

text \<open>
  C4. The update handler, evaluated for the comment's author and for an admin, each with
  the payload that \<open>/login\<close> signs (\<open>userId\<close> and \<open>role\<close>): the handler reads
  \<open>req.user._id\<close>, the ownership test throws, and the answer is 500 with the comment
  unchanged.
\<close>

theorem updateComment_login_identity:
  "login (\<lambda>pw h. h = ''hash-'' @ pw) ''alice@forum.test'' (Some ''a'') forum
       = Inr (login_payload ''u1'' ''community_member'')
   \<and> login (\<lambda>pw h. h = ''hash-'' @ pw) ''dana@forum.test'' (Some ''d'') forum
       = Inr (login_payload ''u3'' ''admin'')
   \<and> Comment_findById ''c1'' forum = Some c_root \<and> c_author c_root = ''u1''
   \<and> updateComment (Some (login_payload ''u1'' ''community_member'')) ''c1'' (Some ''edited'') forum
       = (Inl ServerError, forum)
   \<and> updateComment (Some (login_payload ''u3'' ''admin'')) ''c1'' (Some ''edited'') forum
       = (Inl ServerError, forum)"
  by (simp add: sample_defs login_def updateComment_def Comment_findById_def auth_def
      not_owner_nor_admin_def Let_def)

text \<open>
  C5. Password reset. Requesting a reset for an email that no user has fails with
  UserNotFound (404). Completing a reset when no user has both the hash of the presented
  token and an expiry later than now (the token is mismatched or expired) fails with
  InvalidResetToken (400), and the store is unchanged. Completing it with a token whose hash
  some user stores with an expiry later than now succeeds: the first such user gets the
  hash of the new password, and the stored token hash and expiry are cleared.
\<close>

theorem password_reset_flow:
  "(body_email \<notin> set (map email (users st)) \<longrightarrow>
      forgotPassword digest resetToken mail_sent now body_email st = (Inl UserNotFound, st))
   \<and> status_code UserNotFound = 404
   \<and> ((\<forall>u \<in> set (users st). passwordResetToken u \<noteq> Some (digest token)
           \<or> (\<forall>e. passwordResetExpires u = Some e \<longrightarrow> e \<le> now)) \<longrightarrow>
      resetPassword digest bcrypt_hash now token body_password st = (Inl InvalidResetToken, st))
   \<and> (\<forall>u e. u \<in> set (users st) \<and> passwordResetToken u = Some (digest token)
            \<and> passwordResetExpires u = Some e \<and> now < e \<longrightarrow>
        (\<exists>st' v. resetPassword digest bcrypt_hash now token (Some pw) st = (Inr (), st')
           \<and> find (reset_match (digest token) now) (users st) = Some v
           \<and> User_findById (user_id v) st'
               = Some (v\<lparr>password := Some (bcrypt_hash pw), passwordResetToken := None,
                         passwordResetExpires := None, lastActive := now\<rparr>)))"
proof (intro conjI allI impI)
  assume "body_email \<notin> set (map email (users st))"
  then have "find (\<lambda>u. email u = body_email) (users st) = None"
    by (auto simp: find_none_set)
  then show "forgotPassword digest resetToken mail_sent now body_email st = (Inl UserNotFound, st)"
    by (simp add: forgotPassword_def)
next
  show "status_code UserNotFound = 404" by simp
next
  assume "\<forall>u \<in> set (users st). passwordResetToken u \<noteq> Some (digest token)
           \<or> (\<forall>e. passwordResetExpires u = Some e \<longrightarrow> e \<le> now)"
  then have "find (reset_match (digest token) now) (users st) = None"
    by (fastforce simp: find_none_set reset_match_def split: option.splits)
  then show "resetPassword digest bcrypt_hash now token body_password st = (Inl InvalidResetToken, st)"
    by (simp add: resetPassword_def)
next
  fix u e
  assume a: "u \<in> set (users st) \<and> passwordResetToken u = Some (digest token)
            \<and> passwordResetExpires u = Some e \<and> now < e"
  then have "reset_match (digest token) now u" by (simp add: reset_match_def)
  with a have "find (reset_match (digest token) now) (users st) \<noteq> None"
    by (auto simp: find_none_set)
  then obtain v where v: "find (reset_match (digest token) now) (users st) = Some v" by auto
  then have vin: "v \<in> set (users st)" by (simp add: find_in_set)
  then have "find (\<lambda>x. user_id x = user_id v) (users st) \<noteq> None"
    by (auto simp: find_none_set)
  then obtain w where w: "find (\<lambda>x. user_id x = user_id v) (users st) = Some w" by auto
  show "\<exists>st' v. resetPassword digest bcrypt_hash now token (Some pw) st = (Inr (), st')
           \<and> find (reset_match (digest token) now) (users st) = Some v
           \<and> User_findById (user_id v) st'
               = Some (v\<lparr>password := Some (bcrypt_hash pw), passwordResetToken := None,
                         passwordResetExpires := None, lastActive := now\<rparr>)"
    using v w by (simp add: resetPassword_def User_findById_def find_update_first)
qed

theorem password_reset_flow_witness:
  "forgotPassword rev ''r4nd0m'' True 1000 ''nobody@forum.test'' people = (Inl UserNotFound, people)
   \<and> resetPassword rev (\<lambda>pw. ''$2a$'' @ pw) 6000 ''token'' (Some ''fresh'') people
       = (Inl InvalidResetToken, people)
   \<and> resetPassword rev (\<lambda>pw. ''$2a$'' @ pw) 1000 ''wrong'' (Some ''fresh'') people
       = (Inl InvalidResetToken, people)
   \<and> (\<exists>st'. resetPassword rev (\<lambda>pw. ''$2a$'' @ pw) 1000 ''token'' (Some ''fresh'') people = (Inr (), st')
         \<and> User_findById ''u2'' st'
             = Some (bob\<lparr>password := Some ''$2a$fresh'', passwordResetToken := None,
                         passwordResetExpires := None, lastActive := 1000\<rparr>))"
  using password_reset_flow [where body_email = "''nobody@forum.test''" and st = people
          and digest = rev and token = "''token''" and now = 6000 and resetToken = "''r4nd0m''"
          and mail_sent = True and bcrypt_hash = "(\<lambda>pw. ''$2a$'' @ pw)"
          and body_password = "Some ''fresh''" and pw = "''fresh''"]
        password_reset_flow [where body_email = "''nobody@forum.test''" and st = people
          and digest = rev and token = "''wrong''" and now = 1000 and resetToken = "''r4nd0m''"
          and mail_sent = True and bcrypt_hash = "(\<lambda>pw. ''$2a$'' @ pw)"
          and body_password = "Some ''fresh''" and pw = "''fresh''"]
        password_reset_flow [where body_email = "''nobody@forum.test''" and st = people
          and digest = rev and token = "''token''" and now = 1000 and resetToken = "''r4nd0m''"
          and mail_sent = True and bcrypt_hash = "(\<lambda>pw. ''$2a$'' @ pw)"
          and body_password = "Some ''fresh''" and pw = "''fresh''"]
  by (simp add: people_def alice_def bob_def resetPassword_def forgotPassword_def reset_match_def
      User_findById_def)

text \<open>
  C6. The like handler, evaluated on the existing comment \<open>c1\<close>, whose \<open>likes\<close> array is
  empty: \<open>comment.likes += 1\<close> computes the string \<open>"1"\<close>, which is no object id, the
  save is rejected, and the answer is 500 with the comment unchanged.
\<close>

theorem likeComment_evaluated:
  "Comment_findById ''c1'' forum = Some c_root \<and> c_likes c_root = []
   \<and> likes_plus_one (c_likes c_root) = ''1''
   \<and> likeComment (Some (login_payload ''u2'' ''moderator'')) ''c1'' forum = (Inl ServerError, forum)"
  by (simp add: sample_defs likeComment_def Comment_findById_def auth_def
      likes_plus_one_def castObjectId_def Let_def)

text \<open>
  C7. A user document that \<open>User.create\<close> returns has the role that was given (or
  \<open>"guest"\<close>), and its permission flags are derived from that role: \<open>canPost\<close> and
  \<open>canComment\<close> hold exactly for community_member, moderator and admin, \<open>canModerate\<close>
  exactly for moderator and admin, \<open>canManageUsers\<close> exactly for admin; the document is in
  the store.
\<close>

theorem created_user_permissions:
  "User_create fresh now inp st = (Inr u, st') \<Longrightarrow>
     role u = (case in_role inp of None \<Rightarrow> ''guest'' | Some r \<Rightarrow> r)
     \<and> (canPost (permissions u) \<longleftrightarrow> role u \<in> {''community_member'', ''moderator'', ''admin''})
     \<and> (canComment (permissions u) \<longleftrightarrow> role u \<in> {''community_member'', ''moderator'', ''admin''})
     \<and> (canModerate (permissions u) \<longleftrightarrow> role u \<in> {''moderator'', ''admin''})
     \<and> (canManageUsers (permissions u) \<longleftrightarrow> role u = ''admin'')
     \<and> u \<in> set (users st')"
  unfolding User_create_def Let_def
  by (auto split: option.splits if_splits prod.splits simp: default_permissions_def)

theorem created_user_permissions_witness:
  "signup (\<lambda>pw. ''$2a$'' @ pw) ''u9'' 7 (Some ''carol'') (Some ''carol@forum.test'')
          (Some ''secret'') people
     = (Inr carol, people\<lparr>users := [alice, bob, carol]\<rparr>)
   \<and> canPost (permissions carol) \<and> canComment (permissions carol)
   \<and> \<not> canModerate (permissions carol) \<and> \<not> canManageUsers (permissions carol)"
proof -
  have h: "User_create ''u9'' 7
      \<lparr>in_username = Some ''carol'', in_email = Some ''carol@forum.test'',
       in_password = Some ''$2a$secret'', in_role = Some ''community_member''\<rparr> people
      = (Inr carol, people\<lparr>users := [alice, bob, carol]\<rparr>)"
    by (simp add: User_create_def people_def alice_def bob_def carol_def role_enum_def
        truthy_def default_permissions_def Let_def)
  from created_user_permissions [OF h] h show ?thesis
    by (simp add: signup_def carol_def)
qed

text \<open>
  C8. The admin role update leaves the permission flags of every stored user as they
  were, whatever the request and its outcome; and when the requester passes the
  \<open>canManageUsers\<close> gate and the user exists, the user's role is the new one afterwards
  (so the role does change while the flags do not).
\<close>

theorem role_update_keeps_permissions:
  "map permissions (users (snd (updateUserRole verified userId body_role st)))
     = map permissions (users st)
   \<and> (\<forall>u x r. verified = Some u \<and> holds u ''canManageUsers'' \<and> body_role = Some r
          \<and> User_findById userId st = Some x
        \<longrightarrow> User_findById userId (snd (updateUserRole verified userId body_role st))
              = Some (x\<lparr>role := r\<rparr>))"
proof (intro conjI allI impI)
  show "map permissions (users (snd (updateUserRole verified userId body_role st)))
          = map permissions (users st)"
    by (simp add: updateUserRole_def Let_def map_update_first split: sum.splits option.splits)
next
  fix u x r
  assume a: "verified = Some u \<and> holds u ''canManageUsers'' \<and> body_role = Some r
          \<and> User_findById userId st = Some x"
  then have g: "guarded \<lparr>opt_roles = None, opt_permissions = Some [''canManageUsers'']\<rparr> (Some u) = Inr u"
    by (simp add: guarded_def auth_def authorize_def)
  from a show "User_findById userId (snd (updateUserRole verified userId body_role st))
              = Some (x\<lparr>role := r\<rparr>)"
    by (simp add: updateUserRole_def g Let_def User_findById_def find_update_first)
qed

theorem role_update_keeps_permissions_witness:
  "map permissions (users (snd (updateUserRole (Some manager) ''u1'' (Some ''admin'') people)))
     = map permissions (users people)
   \<and> User_findById ''u1'' (snd (updateUserRole (Some manager) ''u1'' (Some ''admin'') people))
     = Some (alice\<lparr>role := ''admin''\<rparr>)
   \<and> \<not> canManageUsers (permissions (alice\<lparr>role := ''admin''\<rparr>))"
  using role_update_keeps_permissions [of "Some manager" "''u1''" "Some ''admin''" people]
  by (simp add: holds_def manager_def User_findById_def people_def alice_def bob_def
      default_permissions_def)

text \<open>
  C9. The listing handler, evaluated on the thread of the sample forum, where \<open>c2\<close> is a
  reply to \<open>c1\<close> and \<open>c3\<close> a reply to \<open>c2\<close>. Without \<open>parentId\<close> the two replies are
  listed among the top-level comments. With \<open>parentId = c1\<close> the answer is empty
  (without \<open>strictQuery\<close>) or the whole thread (with it), not the one direct reply \<open>c2\<close>.
  The reply count attached to \<open>c1\<close> is 0 or 3, not 1.
\<close>

theorem listComments_evaluated:
  "parentComment c_root = None \<and> parentComment c_child = Some ''c1''
   \<and> parentComment c_grandchild = Some ''c2''
   \<and> listComments False ''t1'' None forum = [(c_root, 0), (c_child, 0), (c_grandchild, 0)]
   \<and> listComments True ''t1'' None forum = [(c_root, 3), (c_child, 3), (c_grandchild, 3)]
   \<and> listComments False ''t1'' (Some ''c1'') forum = []
   \<and> listComments True ''t1'' (Some ''c1'') forum = [(c_root, 3), (c_child, 3), (c_grandchild, 3)]"
  by (simp add: sample_defs listComments_def Comment_find_def Comment_countDocuments_def
      Comment_matches_def cast_filter_def comment_paths_def field_matches_def
      Comment_toObject_def truthy_def Let_def)

text \<open>
  C10, as the claim states it, evaluated: a requester whose payload holds \<open>canModerate\<close>
  names the comment \<open>abc\<close>, which does not exist. The parameter is no object id, the
  query rejects, and the answer is 500, not success.
\<close>

theorem moderator_delete_malformed_id:
  "holds janitor ''canModerate''
   \<and> Comment_findById ''abc'' forum = None
   \<and> deleteCommentAsModerator (Some janitor) ''abc'' forum = (Inl ServerError, forum)"
  by (simp add: sample_defs holds_def deleteCommentAsModerator_def guarded_def auth_def
      authorize_def castObjectId_def Comment_findById_def)

text \<open>
  C10, amended. The requester is one whose verified token payload carries
  \<open>permissions.canModerate = true\<close> (the gate reads the payload, not the stored user).
  When the \<open>commentId\<close> of such a request is 24 hexadecimal digits, the call answers
  success; it deletes at most the first comment with that id and nothing else: every other
  comment stays, in particular every reply to the named comment; threads and users are
  unchanged; and when no comment has the id the store is unchanged and the answer is still
  success. When the \<open>commentId\<close> cannot be cast to an object id, the call answers 500 and
  the store is unchanged.
\<close>

theorem moderator_delete_single:
  "(verified = Some u \<and> holds u ''canModerate'' \<and> length cid = 24 \<and> list_all isHex cid \<longrightarrow>
     (\<exists>st'. deleteCommentAsModerator verified cid st = (Inr (), st')
        \<and> comments st' = remove_first (\<lambda>x. comment_id x = map lowerHex cid) (comments st)
        \<and> threads st' = threads st \<and> users st' = users st
        \<and> set (comments st') \<subseteq> set (comments st)
        \<and> length (comments st) \<le> Suc (length (comments st'))
        \<and> (\<forall>r \<in> set (comments st). comment_id r \<noteq> map lowerHex cid \<longrightarrow> r \<in> set (comments st'))
        \<and> (\<forall>r \<in> set (comments st).
              parentComment r = Some (map lowerHex cid) \<and> comment_id r \<noteq> map lowerHex cid
              \<longrightarrow> r \<in> set (comments st'))
        \<and> (Comment_findById (map lowerHex cid) st = None \<longrightarrow> st' = st)))
   \<and> (verified = Some u \<and> holds u ''canModerate'' \<and> castObjectId cid = None \<longrightarrow>
        deleteCommentAsModerator verified cid st = (Inl ServerError, st))"
proof (intro conjI impI)
  assume a: "verified = Some u \<and> holds u ''canModerate'' \<and> length cid = 24 \<and> list_all isHex cid"
  then have g: "guarded \<lparr>opt_roles = None, opt_permissions = Some [''canModerate'']\<rparr> verified = Inr u"
    by (simp add: guarded_def auth_def authorize_def)
  from a have c: "castObjectId cid = Some (map lowerHex cid)"
    by (simp add: castObjectId_def)
  let ?i = "map lowerHex cid"
  let ?st' = "st\<lparr>comments := remove_first (\<lambda>x. comment_id x = ?i) (comments st)\<rparr>"
  have r: "deleteCommentAsModerator verified cid st = (Inr (), ?st')"
    by (simp add: deleteCommentAsModerator_def g c)
  have n: "Comment_findById ?i st = None \<longrightarrow> ?st' = st"
    by (simp add: Comment_findById_def find_none_set remove_first_absent)
  show "\<exists>st'. deleteCommentAsModerator verified cid st = (Inr (), st')
        \<and> comments st' = remove_first (\<lambda>x. comment_id x = map lowerHex cid) (comments st)
        \<and> threads st' = threads st \<and> users st' = users st
        \<and> set (comments st') \<subseteq> set (comments st)
        \<and> length (comments st) \<le> Suc (length (comments st'))
        \<and> (\<forall>r \<in> set (comments st). comment_id r \<noteq> map lowerHex cid \<longrightarrow> r \<in> set (comments st'))
        \<and> (\<forall>r \<in> set (comments st).
              parentComment r = Some (map lowerHex cid) \<and> comment_id r \<noteq> map lowerHex cid
              \<longrightarrow> r \<in> set (comments st'))
        \<and> (Comment_findById (map lowerHex cid) st = None \<longrightarrow> st' = st)"
    using r n by (intro exI [of _ ?st'])
      (simp add: remove_first_keeps remove_first_subset remove_first_length)
next
  assume b: "verified = Some u \<and> holds u ''canModerate'' \<and> castObjectId cid = None"
  then have g: "guarded \<lparr>opt_roles = None, opt_permissions = Some [''canModerate'']\<rparr> verified = Inr u"
    by (simp add: guarded_def auth_def authorize_def)
  from b have c: "castObjectId cid = None" by simp
  show "deleteCommentAsModerator verified cid st = (Inl ServerError, st)"
    by (simp add: deleteCommentAsModerator_def g c)
qed

theorem moderator_delete_single_witness:
  "deleteCommentAsModerator (Some janitor) ''65a1b2c3d4e5f60718293a01'' archive
     = (Inr (), archive\<lparr>comments := [archived_reply]\<rparr>)
   \<and> parentComment archived_reply = Some ''65a1b2c3d4e5f60718293a01''
   \<and> deleteCommentAsModerator (Some janitor) ''65A1B2C3D4E5F60718293A02'' archive
     = (Inr (), archive\<lparr>comments := [archived_root]\<rparr>)
   \<and> deleteCommentAsModerator (Some janitor) ''65a1b2c3d4e5f60718293aff'' archive
     = (Inr (), archive)
   \<and> deleteCommentAsModerator (Some janitor) ''no such comment'' archive
     = (Inl ServerError, archive)"
  using moderator_delete_single [of "Some janitor" janitor "''65a1b2c3d4e5f60718293a01''" archive]
        moderator_delete_single [of "Some janitor" janitor "''65A1B2C3D4E5F60718293A02''" archive]
        moderator_delete_single [of "Some janitor" janitor "''65a1b2c3d4e5f60718293aff''" archive]
        moderator_delete_single [of "Some janitor" janitor "''no such comment''" archive]
  by (auto simp: sample_defs holds_def Comment_findById_def castObjectId_def isHex_def
      lowerHex_def)

end
